theory Spec2Isabelle
  imports Complex_Main
begin

section \<open>Waiting for asynchronous ONTAP jobs: the data\<close>

text \<open>
  The development embeds the asynchronous-response waiter of the ONTAP API client
  (package \<open>api\<close>): \<open>NewZapiAsyncResult\<close>, \<open>WaitForAsyncResponse\<close>,
  \<open>checkForJobCompletion\<close> with its closure \<open>checkJobFinished\<close>, and
  \<open>asyncResponseBackoff\<close>.

  Go's \<open>int\<close>, \<open>int64\<close> and \<open>time.Duration\<close> are modelled by \<open>int\<close>: the code only
  copies and compares these values, it does no arithmetic on them, so no wrap-around can
  occur. A \<open>time.Duration\<close> counts nanoseconds. The parameter \<open>jobId\<close> of the Go
  functions is written \<open>jobID\<close>, since \<open>jobId\<close> is the field of \<open>ZapiAsyncResult\<close>.
\<close>

type_synonym duration = int

definition Second :: duration where
  "Second = 1000000000"

subsection \<open>The job-status response\<close>

text \<open>
  The generated \<open>azgo\<close> types are used by the client but declared elsewhere. Of a
  \<open>JobGetIterResponse\<close> the code reads \<open>Result.ResultStatusAttr\<close>, the pointer
  \<open>Result.AttributesListPtr\<close>, the slice \<open>JobInfoPtr\<close> behind it and the value of
  the accessor \<open>JobState()\<close> of its first element. A Go pointer is an \<open>option\<close>
  (\<open>None\<close> is \<open>nil\<close>); a slice is a list (a nil slice and an empty slice both have
  no element 0). A \<open>JobInfoType\<close> is represented by what \<open>JobState()\<close> returns.
\<close>

record JobInfoType =
  JobState :: string

record JobGetIterResponseResultAttributesList =
  JobInfoPtr :: "JobInfoType list"

record JobGetIterResponseResult =
  ResultStatusAttr :: string
  AttributesListPtr :: "JobGetIterResponseResultAttributesList option"

record JobGetIterResponse =
  Result :: JobGetIterResponseResult

subsection \<open>Errors and panics\<close>

text \<open>
  \<open>fmt.Errorf(format, args...)\<close> is kept as the format string with its arguments, so
  that what a message names can be read off the value. \<open>PermanentError\<close> is the wrapper
  made by \<open>backoff.Permanent\<close>, \<open>ZapiError\<close> the client's struct of status, reason
  and code, and \<open>OtherError\<close> stands for an error made outside this code (the transport
  under \<open>JobGetIterStatus\<close>). A value of type \<open>error option\<close> is a Go \<open>error\<close>,
  \<open>None\<close> being \<open>nil\<close>.
\<close>

datatype arg = ArgInt int | ArgString string | ArgResult JobGetIterResponseResult

datatype error =
    Errorf string "arg list"
  | PermanentError error
  | ZapiError string string string
  | OtherError string

text \<open>A run-time panic of the Go code is a value of its own.\<close>

datatype panic = NilPointerDereference | IndexOutOfRange | ReflectPanic

text \<open>What a call yields: a panic, or the returned \<open>error\<close>.\<close>

type_synonym outcome = "panic + error option"

subsection \<open>The result of an asynchronous submission\<close>

record ZapiAsyncResult =
  jobId :: int
  status :: string
  errorCode :: int

text \<open>
  \<open>NewZapiAsyncResult\<close> takes an \<open>interface{}\<close> and inspects it by reflection. The
  values it can be given are split by what the code does with them:
  \<^item> a \<open>VolumeModifyIterAsyncResponse\<close> (the first case of its type switch),
    represented by the fields of its result that the code reads;
  \<^item> any other response whose result has the three pointer fields
    \<open>ResultStatusPtr\<close>, \<open>ResultJobidPtr\<close> and \<open>ResultErrorCodePtr\<close> (the default
    case, when the reflection succeeds);
  \<^item> any other value, on which the reflection panics (a nil interface, a value
    without these fields).
\<close>

record VolumeModifyIterAsyncInfoType =
  JobidPtr :: "int option"
  StatusPtr :: "string option"
  ErrorCodePtr :: "int option"

record VolumeModifyIterAsyncResponseResultSuccessList =
  VolumeModifyIterAsyncInfoPtr :: "VolumeModifyIterAsyncInfoType list option"

record VolumeModifyIterAsyncResponseResult =
  NumSucceededPtr :: "int option"
  SuccessListPtr :: "VolumeModifyIterAsyncResponseResultSuccessList option"

record AsyncResponseResult =
  ResultStatusPtr :: "string option"
  ResultJobidPtr :: "int option"
  ResultErrorCodePtr :: "int option"

datatype zapiResult =
    VolumeModifyIterAsyncResponse VolumeModifyIterAsyncResponseResult
  | AsyncResponse AsyncResponseResult
  | Unrecognized

subsection \<open>The backoff configuration\<close>

text \<open>
  The exported fields of the library's \<open>ExponentialBackOff\<close> that configure it.
  \<open>float64\<close> fields hold the real number the Go constant denotes.
\<close>

record ExponentialBackOff =
  InitialInterval :: duration
  RandomizationFactor :: real
  Multiplier :: real
  MaxInterval :: duration
  MaxElapsedTime :: duration

subsection \<open>The environment and the observable effects\<close>

text \<open>
  The waiter talks to three things outside itself: the storage controller, through
  \<open>JobGetIterStatus\<close>; the backoff library's constructor \<open>NewExponentialBackOff\<close>;
  and the configured backoff's method \<open>NextBackOff\<close>, whose answer depends on the
  clock and on a random number. An environment fixes their answers for one run:
  \<open>JobGetIterStatus env k jobID\<close> is what the \<open>k\<close>-th status query of the run
  returns (counting from 0), and \<open>NextBackOff env b k\<close> is what the \<open>k\<close>-th call of
  \<open>NextBackOff\<close> on the backoff \<open>b\<close> since its last \<open>Reset\<close> returns, \<open>None\<close>
  being the library's \<open>Stop\<close>. Theorems quantify over all environments.

  The world records the effects: how many status queries have been issued, and how many
  times \<open>NextBackOff\<close> was called since the last \<open>Reset\<close>.
\<close>

record env =
  JobGetIterStatus :: "nat \<Rightarrow> int \<Rightarrow> JobGetIterResponse option \<times> error option"
  NewExponentialBackOff :: ExponentialBackOff
  NextBackOff :: "ExponentialBackOff \<Rightarrow> nat \<Rightarrow> duration option"

record world =
  queries :: nat
  backoffs :: nat

section \<open>The operations\<close>

subsection \<open>NewZapiAsyncResult\<close>

text \<open>
  The body of \<open>NewZapiAsyncResult\<close> up to its \<open>return\<close>: the three variables start
  at their zero values and are overwritten by the fields that are present. Indexing
  element 0 of a non-nil, empty \<open>VolumeModifyIterAsyncInfoPtr\<close> panics.
\<close>

definition zeroZapiAsyncResult :: ZapiAsyncResult where
  "zeroZapiAsyncResult = \<lparr>jobId = 0, status = [], errorCode = 0\<rparr>"

definition extractZapiAsyncResult :: "zapiResult \<Rightarrow> panic + ZapiAsyncResult" where
  "extractZapiAsyncResult zapiResult =
     (case zapiResult of
        VolumeModifyIterAsyncResponse volModifyResult \<Rightarrow>
          (case NumSucceededPtr volModifyResult of
             None \<Rightarrow> Inr zeroZapiAsyncResult
           | Some numSucceeded \<Rightarrow>
               if numSucceeded > 0 then
                 (case SuccessListPtr volModifyResult of
                    None \<Rightarrow> Inr zeroZapiAsyncResult
                  | Some successList \<Rightarrow>
                      (case VolumeModifyIterAsyncInfoPtr successList of
                         None \<Rightarrow> Inr zeroZapiAsyncResult
                       | Some [] \<Rightarrow> Inl IndexOutOfRange
                       | Some (volInfoType # _) \<Rightarrow>
                           Inr \<lparr>jobId = (case JobidPtr volInfoType of None \<Rightarrow> 0 | Some j \<Rightarrow> j),
                                status = (case StatusPtr volInfoType of None \<Rightarrow> [] | Some s \<Rightarrow> s),
                                errorCode = (case ErrorCodePtr volInfoType of None \<Rightarrow> 0 | Some e \<Rightarrow> e)\<rparr>))
               else Inr zeroZapiAsyncResult)
      | AsyncResponse res \<Rightarrow>
          Inr \<lparr>jobId = (case ResultJobidPtr res of None \<Rightarrow> 0 | Some j \<Rightarrow> j),
               status = (case ResultStatusPtr res of None \<Rightarrow> [] | Some s \<Rightarrow> s),
               errorCode = (case ResultErrorCodePtr res of None \<Rightarrow> 0 | Some e \<Rightarrow> e)\<rparr>
      | Unrecognized \<Rightarrow> Inl ReflectPanic)"

text \<open>
  The deferred function recovers from any panic and sets \<open>err = ZapiError{}\<close>; the
  named result has not been assigned then and keeps its zero value. Without a panic
  \<open>err\<close> stays \<open>nil\<close>.
\<close>

definition NewZapiAsyncResult :: "zapiResult \<Rightarrow> ZapiAsyncResult \<times> error option" where
  "NewZapiAsyncResult zapiResult =
     (case extractZapiAsyncResult zapiResult of
        Inl p \<Rightarrow> (zeroZapiAsyncResult, Some (ZapiError [] [] []))
      | Inr result \<Rightarrow> (result, None))"

subsection \<open>asyncResponseBackoff\<close>

text \<open>
  \<open>asyncResponseBackoff\<close> overwrites four fields of the value that the library's
  \<open>NewExponentialBackOff()\<close> returns, here the parameter \<open>new\<close>.
\<close>

definition asyncResponseBackoff :: "ExponentialBackOff \<Rightarrow> duration \<Rightarrow> ExponentialBackOff" where
  "asyncResponseBackoff new maxWaitTime =
     new\<lparr>InitialInterval := 1 * Second,
         Multiplier := 2,
         RandomizationFactor := 1 / 10,
         MaxElapsedTime := maxWaitTime\<rparr>"

subsection \<open>The per-poll check\<close>

text \<open>
  The closure \<open>checkJobFinished\<close> of \<open>checkForJobCompletion\<close>. It issues one status
  query. Reading \<open>jobResponse.Result\<close> through a nil \<open>jobResponse\<close> panics, in the
  branch for a query error as well as after it; so does \<open>JobInfoPtr[0]\<close> on a list
  without elements. The logging calls have no effect on the result and are left out.
\<close>

definition checkJobFinished :: "env \<Rightarrow> int \<Rightarrow> world \<Rightarrow> outcome \<times> world" where
  "checkJobFinished e jobID w =
     (case JobGetIterStatus e (queries w) jobID of
        (jobResponse, err) \<Rightarrow>
          (if err \<noteq> None then
             (case jobResponse of
                None \<Rightarrow> Inl NilPointerDereference
              | Some r \<Rightarrow>
                  Inr (Some (Errorf ''error occurred getting job status for job ID %d: %v''
                               [ArgInt jobID, ArgResult (Result r)])))
           else
             (case jobResponse of
                None \<Rightarrow> Inl NilPointerDereference
              | Some r \<Rightarrow>
                  if ResultStatusAttr (Result r) \<noteq> ''passed'' then
                    Inr (Some (Errorf ''failed to get job status for job ID %d: %v ''
                                 [ArgInt jobID, ArgResult (Result r)]))
                  else
                    (case AttributesListPtr (Result r) of
                       None \<Rightarrow>
                         Inr (Some (Errorf ''failed to get job status for job ID %d: %v ''
                                      [ArgInt jobID, ArgResult (Result r)]))
                     | Some attributesList \<Rightarrow>
                         (case JobInfoPtr attributesList of
                            [] \<Rightarrow> Inl IndexOutOfRange
                          | jobInfo # _ \<Rightarrow>
                              (let jobState = JobState jobInfo in
                               if jobState = ''failure'' \<or> jobState = ''error'' \<or>
                                  jobState = ''quit'' \<or> jobState = ''dead'' then
                                 Inr (Some (PermanentError
                                   (Errorf ''job %d failed to complete. job state: %v''
                                      [ArgInt jobID, ArgString jobState])))
                               else if jobState \<noteq> ''success'' then
                                 Inr (Some (Errorf ''job %d is not yet completed. job state: %v''
                                              [ArgInt jobID, ArgString jobState]))
                               else Inr None)))),
           w\<lparr>queries := Suc (queries w)\<rparr>))"

subsection \<open>The retry loop of the backoff library\<close>

text \<open>
  \<open>RetryNotify\<close> belongs to the package \<open>github.com/cenkalti/backoff/v4\<close> that the
  client imports; it is embedded here as that package documents it.
  \<open>backoff.RetryNotify(operation, b, notify)\<close> resets \<open>b\<close> and then loops: it runs
  the operation; a nil error ends the loop with nil; a \<open>PermanentError\<close> ends it with
  the wrapped error; otherwise it asks \<open>b.NextBackOff()\<close>, ends with the operation's
  error on \<open>Stop\<close>, and else notifies, sleeps and goes round again. A panic of the
  operation leaves the loop as a panic. The loop need not end (a backoff with
  \<open>MaxElapsedTime = 0\<close> never stops), so it is a partial function: \<open>None\<close> is a run
  that never returns. The notify function here only logs.
\<close>

fun isPermanent :: "error \<Rightarrow> bool" where
  "isPermanent (PermanentError _) = True"
| "isPermanent _ = False"

fun unwrapPermanent :: "error \<Rightarrow> error" where
  "unwrapPermanent (PermanentError err) = err"
| "unwrapPermanent err = err"

partial_function (option) RetryNotify_loop ::
  "env \<Rightarrow> (world \<Rightarrow> outcome \<times> world) \<Rightarrow> ExponentialBackOff \<Rightarrow> world \<Rightarrow> (outcome \<times> world) option"
where
  "RetryNotify_loop e operation b w =
     (case operation w of
        (Inl p, w1) \<Rightarrow> Some (Inl p, w1)
      | (Inr None, w1) \<Rightarrow> Some (Inr None, w1)
      | (Inr (Some err), w1) \<Rightarrow>
          if isPermanent err then Some (Inr (Some (unwrapPermanent err)), w1)
          else
            (case NextBackOff e b (backoffs w1) of
               None \<Rightarrow> Some (Inr (Some err), w1\<lparr>backoffs := Suc (backoffs w1)\<rparr>)
             | Some next \<Rightarrow>
                 RetryNotify_loop e operation b (w1\<lparr>backoffs := Suc (backoffs w1)\<rparr>)))"

definition RetryNotify ::
  "env \<Rightarrow> (world \<Rightarrow> outcome \<times> world) \<Rightarrow> ExponentialBackOff \<Rightarrow> world \<Rightarrow> (outcome \<times> world) option"
where
  "RetryNotify e operation b w = RetryNotify_loop e operation b (w\<lparr>backoffs := 0\<rparr>)"

subsection \<open>The exponential backoff of the library\<close>






subsection \<open>checkForJobCompletion and WaitForAsyncResponse\<close>

text \<open>
  Whatever non-nil error the retry loop ends with, \<open>checkForJobCompletion\<close> returns a
  new error made from the job id alone.
\<close>

definition checkForJobCompletion ::
  "env \<Rightarrow> int \<Rightarrow> duration \<Rightarrow> world \<Rightarrow> (outcome \<times> world) option"
where
  "checkForJobCompletion e jobID maxWaitTime w =
     (let inProgressBackoff = asyncResponseBackoff (NewExponentialBackOff e) maxWaitTime in
      case RetryNotify e (checkJobFinished e jobID) inProgressBackoff w of
        None \<Rightarrow> None
      | Some (Inl p, w') \<Rightarrow> Some (Inl p, w')
      | Some (Inr (Some err), w') \<Rightarrow>
          Some (Inr (Some (Errorf ''job Id %d failed to complete successfully'' [ArgInt jobID])), w')
      | Some (Inr None, w') \<Rightarrow> Some (Inr None, w'))"

definition WaitForAsyncResponse ::
  "env \<Rightarrow> zapiResult \<Rightarrow> duration \<Rightarrow> world \<Rightarrow> (outcome \<times> world) option"
where
  "WaitForAsyncResponse e zapiResult maxWaitTime w =
     (case NewZapiAsyncResult zapiResult of
        (asyncResult, err) \<Rightarrow>
          if err \<noteq> None then Some (Inr err, w)
          else if status asyncResult = ''in_progress'' then
            (case checkForJobCompletion e (jobId asyncResult) maxWaitTime w of
               None \<Rightarrow> None
             | Some (Inl p, w') \<Rightarrow> Some (Inl p, w')
             | Some (Inr (Some asyncResponseError), w') \<Rightarrow> Some (Inr (Some asyncResponseError), w')
             | Some (Inr None, w') \<Rightarrow> Some (Inr None, w'))
          else if status asyncResult = ''failed'' then
            Some (Inr (Some (Errorf ''result status is failed with errorCode %d''
                               [ArgInt (errorCode asyncResult)])), w)
          else Some (Inr None, w))"

section \<open>Notions for stating the properties\<close>

subsection \<open>What a poll observes\<close>

text \<open>
  The four job states on which the check returns a permanent error.
\<close>

definition terminalFailure :: "string \<Rightarrow> bool" where
  "terminalFailure s \<longleftrightarrow> s = ''failure'' \<or> s = ''error'' \<or> s = ''quit'' \<or> s = ''dead''"

text \<open>
  The job state that the \<open>k\<close>-th status query of a run shows to the check: there is
  one when the query returned no error, the result status is \<open>passed\<close>, the attributes
  are present and hold at least one job-info entry; it is the state of the first entry.
\<close>

definition observedJobState :: "env \<Rightarrow> int \<Rightarrow> nat \<Rightarrow> string option" where
  "observedJobState e jobID k =
     (case JobGetIterStatus e k jobID of
        (Some r, None) \<Rightarrow>
          if ResultStatusAttr (Result r) = ''passed'' then
            (case AttributesListPtr (Result r) of
               None \<Rightarrow> None
             | Some attributesList \<Rightarrow>
                 (case JobInfoPtr attributesList of
                    [] \<Rightarrow> None
                  | jobInfo # _ \<Rightarrow> Some (JobState jobInfo)))
          else None
      | _ \<Rightarrow> None)"

text \<open>
  The outcome of the check when it issues the \<open>k\<close>-th status query of the run. The
  check reads nothing of the world but the number of queries issued so far.
\<close>

definition pollOutcome :: "env \<Rightarrow> int \<Rightarrow> nat \<Rightarrow> outcome" where
  "pollOutcome e jobID k = fst (checkJobFinished e jobID \<lparr>queries = k, backoffs = 0\<rparr>)"

text \<open>
  An outcome is retryable when it is an error that is not permanent: the only outcome
  after which the retry loop asks the backoff for a delay.
\<close>

fun retryable :: "outcome \<Rightarrow> bool" where
  "retryable (Inr (Some err)) = (\<not> isPermanent err)"
| "retryable _ = False"

text \<open>What the retry loop returns when it ends with a given outcome of the operation.\<close>

fun loopResult :: "outcome \<Rightarrow> outcome" where
  "loopResult (Inr (Some err)) = Inr (Some (unwrapPermanent err))"
| "loopResult out = out"

text \<open>
  What \<open>checkForJobCompletion\<close> makes of the outcome the retry loop ended with.
\<close>

fun completionResult :: "int \<Rightarrow> outcome \<Rightarrow> outcome" where
  "completionResult jobID (Inr (Some err)) =
     Inr (Some (Errorf ''job Id %d failed to complete successfully'' [ArgInt jobID]))"
| "completionResult jobID out = out"

text \<open>
  Poll number \<open>k\<close> of a call of \<open>checkForJobCompletion\<close> started in world \<open>w\<close>
  (counting from 0) was retried: its outcome was retryable and the backoff configured
  for the call answered with a delay. The poll after it is then reached.
\<close>

definition retried :: "env \<Rightarrow> int \<Rightarrow> duration \<Rightarrow> world \<Rightarrow> nat \<Rightarrow> bool" where
  "retried e jobID maxWaitTime w k \<longleftrightarrow>
     retryable (pollOutcome e jobID (queries w + k)) \<and>
     NextBackOff e (asyncResponseBackoff (NewExponentialBackOff e) maxWaitTime) k \<noteq> None"

subsection \<open>Sample runs\<close>

text \<open>
  A response of a query that succeeded and reports one job in the given state, the
  defaults of the library's constructor, and an environment that answers the \<open>k\<close>-th
  query and the \<open>k\<close>-th call of \<open>NextBackOff\<close> from two scripts.
\<close>

definition passedResponse :: "string \<Rightarrow> JobGetIterResponse" where
  "passedResponse s =
     \<lparr>Result = \<lparr>ResultStatusAttr = ''passed'',
                AttributesListPtr = Some \<lparr>JobInfoPtr = [\<lparr>JobState = s\<rparr>]\<rparr>\<rparr>\<rparr>"

definition libraryDefaults :: ExponentialBackOff where
  "libraryDefaults =
     \<lparr>InitialInterval = 500000000, RandomizationFactor = 1 / 2, Multiplier = 3 / 2,
      MaxInterval = 60 * Second, MaxElapsedTime = 900 * Second\<rparr>"

definition scriptedEnv ::
  "(nat \<Rightarrow> JobGetIterResponse option \<times> error option) \<Rightarrow> (nat \<Rightarrow> duration option) \<Rightarrow> env"
where
  "scriptedEnv answers delays =
     \<lparr>JobGetIterStatus = (\<lambda>k jobID. answers k),
      NewExponentialBackOff = libraryDefaults,
      NextBackOff = (\<lambda>b k. delays k)\<rparr>"

definition initialWorld :: world where
  "initialWorld = \<lparr>queries = 0, backoffs = 0\<rparr>"

text \<open>The job runs for two polls and has failed at the third; the budget never ends.\<close>

definition envFailsAtThird :: env where
  "envFailsAtThird =
     scriptedEnv
       (\<lambda>k. if k < 2 then (Some (passedResponse ''running''), None)
            else (Some (passedResponse ''failure''), None))
       (\<lambda>k. Some (2 ^ k * Second))"

text \<open>The job has succeeded at the first poll.\<close>

definition envSucceedsAtFirst :: env where
  "envSucceedsAtFirst =
     scriptedEnv (\<lambda>k. (Some (passedResponse ''success''), None)) (\<lambda>k. Some (2 ^ k * Second))"

text \<open>The job has failed at the first poll.\<close>

definition envFailsAtFirst :: env where
  "envFailsAtFirst =
     scriptedEnv (\<lambda>k. (Some (passedResponse ''failure''), None)) (\<lambda>k. Some (2 ^ k * Second))"

text \<open>The job keeps running and the backoff stops at its second call.\<close>

definition envBudgetEnds :: env where
  "envBudgetEnds =
     scriptedEnv (\<lambda>k. (Some (passedResponse ''running''), None))
       (\<lambda>k. if k < 1 then Some Second else None)"

text \<open>The job runs for two polls and has succeeded at the third.\<close>

definition envSucceedsAtThird :: env where
  "envSucceedsAtThird =
     scriptedEnv
       (\<lambda>k. if k < 2 then (Some (passedResponse ''running''), None)
            else (Some (passedResponse ''success''), None))
       (\<lambda>k. Some (2 ^ k * Second))"

text \<open>
  Every status query fails and returns no response, as a Go function that returns a
  pointer and an error commonly does; the budget never ends.
\<close>

definition envQueryFails :: env where
  "envQueryFails =
     scriptedEnv (\<lambda>k. (None, Some (OtherError ''connection refused'')))
       (\<lambda>k. Some (2 ^ k * Second))"

text \<open>The query succeeds, with attributes that list no job.\<close>

definition envNoJobInfo :: env where
  "envNoJobInfo =
     scriptedEnv
       (\<lambda>k. (Some \<lparr>Result = \<lparr>ResultStatusAttr = ''passed'',
                               AttributesListPtr = Some \<lparr>JobInfoPtr = []\<rparr>\<rparr>\<rparr>, None))
       (\<lambda>k. Some (2 ^ k * Second))"

text \<open>Submission results with a given status, job 7 and error code 13.\<close>

definition submissionWithStatus :: "string \<Rightarrow> zapiResult" where
  "submissionWithStatus s =
     AsyncResponse \<lparr>ResultStatusPtr = Some s, ResultJobidPtr = Some 7,
                    ResultErrorCodePtr = Some 13\<rparr>"


section \<open>The per-poll check\<close>

lemma checkJobFinished_poll:
  "checkJobFinished e jobID w = (pollOutcome e jobID (queries w), w\<lparr>queries := Suc (queries w)\<rparr>)"
  by (simp add: checkJobFinished_def pollOutcome_def split: prod.splits)

lemma pollOutcome_observed_failure:
  assumes "observedJobState e jobID k = Some s" and "terminalFailure s"
  shows "pollOutcome e jobID k =
           Inr (Some (PermanentError (Errorf ''job %d failed to complete. job state: %v''
                                        [ArgInt jobID, ArgString s])))"
  using assms
  by (auto simp add: pollOutcome_def checkJobFinished_def observedJobState_def terminalFailure_def
        split: prod.splits option.splits if_splits list.splits)

lemma pollOutcome_observed_success:
  assumes "observedJobState e jobID k = Some ''success''"
  shows "pollOutcome e jobID k = Inr None"
  using assms
  by (auto simp add: pollOutcome_def checkJobFinished_def observedJobState_def
        split: prod.splits option.splits if_splits list.splits)

lemma pollOutcome_observed_other:
  assumes "observedJobState e jobID k = Some s" and "\<not> terminalFailure s" and "s \<noteq> ''success''"
  shows "pollOutcome e jobID k =
           Inr (Some (Errorf ''job %d is not yet completed. job state: %v''
                        [ArgInt jobID, ArgString s]))"
  using assms
  by (auto simp add: pollOutcome_def checkJobFinished_def observedJobState_def terminalFailure_def
        split: prod.splits option.splits if_splits list.splits)

lemma pollOutcome_nil_iff:
  "pollOutcome e jobID k = Inr None \<longleftrightarrow> observedJobState e jobID k = Some ''success''"
  by (auto simp add: pollOutcome_def checkJobFinished_def observedJobState_def Let_def
        split: prod.splits option.splits if_splits list.splits)

lemma retryable_not_terminal:
  assumes "retryable (pollOutcome e jobID k)" and "observedJobState e jobID k = Some s"
  shows "s \<noteq> ''success'' \<and> \<not> terminalFailure s"
proof (intro conjI notI)
  assume "s = ''success''"
  with assms(2) have "pollOutcome e jobID k = Inr None"
    by (simp add: pollOutcome_observed_success)
  with assms(1) show False by simp
next
  assume "terminalFailure s"
  from pollOutcome_observed_failure [OF assms(2) this] assms(1) show False by simp
qed

section \<open>The retry loop\<close>

text \<open>One round of the loop, by the outcome of the poll and the answer of the backoff.\<close>

lemma loop_step_stop:
  assumes "\<not> retryable (pollOutcome e jobID (queries w))"
  shows "RetryNotify_loop e (checkJobFinished e jobID) b w =
           Some (loopResult (pollOutcome e jobID (queries w)), w\<lparr>queries := Suc (queries w)\<rparr>)"
proof (cases "pollOutcome e jobID (queries w)")
  case (Inl p)
  then show ?thesis
    by (subst RetryNotify_loop.simps) (simp add: checkJobFinished_poll)
next
  case (Inr r)
  show ?thesis
  proof (cases r)
    case None
    with Inr show ?thesis
      by (subst RetryNotify_loop.simps) (simp add: checkJobFinished_poll)
  next
    case (Some err)
    with Inr assms have "isPermanent err" by simp
    with Inr Some show ?thesis
      by (subst RetryNotify_loop.simps) (simp add: checkJobFinished_poll)
  qed
qed

lemma loop_step_budget:
  assumes "retryable (pollOutcome e jobID (queries w))" and "NextBackOff e b (backoffs w) = None"
  shows "RetryNotify_loop e (checkJobFinished e jobID) b w =
           Some (pollOutcome e jobID (queries w),
                 w\<lparr>queries := Suc (queries w), backoffs := Suc (backoffs w)\<rparr>)"
proof -
  from assms(1) obtain err
    where "pollOutcome e jobID (queries w) = Inr (Some err)" and "\<not> isPermanent err"
    by (cases "pollOutcome e jobID (queries w)" rule: retryable.cases) auto
  with assms(2) show ?thesis
    by (subst RetryNotify_loop.simps) (simp add: checkJobFinished_poll)
qed

lemma loop_step_retry:
  assumes "retryable (pollOutcome e jobID (queries w))" and "NextBackOff e b (backoffs w) = Some d"
  shows "RetryNotify_loop e (checkJobFinished e jobID) b w =
         RetryNotify_loop e (checkJobFinished e jobID) b
           (w\<lparr>queries := Suc (queries w), backoffs := Suc (backoffs w)\<rparr>)"
proof -
  from assms(1) obtain err
    where "pollOutcome e jobID (queries w) = Inr (Some err)" and "\<not> isPermanent err"
    by (cases "pollOutcome e jobID (queries w)" rule: retryable.cases) auto
  with assms(2) show ?thesis
    by (subst RetryNotify_loop.simps) (simp add: checkJobFinished_poll)
qed

text \<open>After \<open>n\<close> polls that were retried the loop stands at poll \<open>n\<close>.\<close>

lemma loop_skip:
  assumes "\<forall>k<n. retryable (pollOutcome e jobID (queries w + k)) \<and>
                 NextBackOff e b (backoffs w + k) \<noteq> None"
  shows "RetryNotify_loop e (checkJobFinished e jobID) b w =
         RetryNotify_loop e (checkJobFinished e jobID) b
           (w\<lparr>queries := queries w + n, backoffs := backoffs w + n\<rparr>)"
  using assms
proof (induction n)
  case 0
  then show ?case by simp
next
  case (Suc n)
  let ?w = "w\<lparr>queries := queries w + n, backoffs := backoffs w + n\<rparr>"
  from Suc.prems have r: "retryable (pollOutcome e jobID (queries ?w))"
    and "NextBackOff e b (backoffs ?w) \<noteq> None" by auto
  then obtain d where d: "NextBackOff e b (backoffs ?w) = Some d" by auto
  have "RetryNotify_loop e (checkJobFinished e jobID) b w =
        RetryNotify_loop e (checkJobFinished e jobID) b ?w"
    using Suc by simp
  also have "\<dots> = RetryNotify_loop e (checkJobFinished e jobID) b
           (?w\<lparr>queries := Suc (queries ?w), backoffs := Suc (backoffs ?w)\<rparr>)"
    by (rule loop_step_retry [OF r d])
  finally show ?case by simp
qed

text \<open>
  A run of the loop that returns: it has issued at least one query, every poll before
  the last was retryable, and the result is made from the outcome of the last poll.
\<close>

lemma loop_returns_inv:
  assumes ret: "RetryNotify_loop e (checkJobFinished e jobID) b w = Some y"
  shows "queries w < queries (snd y) \<and>
         (\<forall>k. queries w \<le> k \<and> k < queries (snd y) - 1 \<longrightarrow> retryable (pollOutcome e jobID k)) \<and>
         fst y = loopResult (pollOutcome e jobID (queries (snd y) - 1))"
proof -
  let ?Q = "\<lambda>e' operation (b'::ExponentialBackOff) w y.
              e' = e \<and> operation = checkJobFinished e jobID \<longrightarrow>
              queries w < queries (snd y) \<and>
              (\<forall>k. queries w \<le> k \<and> k < queries (snd y) - 1 \<longrightarrow> retryable (pollOutcome e jobID k)) \<and>
              fst y = loopResult (pollOutcome e jobID (queries (snd y) - 1))"
  have "?Q e (checkJobFinished e jobID) b w y"
  proof (rule RetryNotify_loop.raw_induct [where P = ?Q, OF _ ret])
    fix loop :: "env \<Rightarrow> (world \<Rightarrow> outcome \<times> world) \<Rightarrow> ExponentialBackOff \<Rightarrow> world \<Rightarrow> (outcome \<times> world) option"
    fix e' operation b' w y
    assume IH: "\<And>e' operation b' w y. loop e' operation b' w = Some y \<Longrightarrow> ?Q e' operation b' w y"
    assume body: "(case operation w of
        (Inl p, w1) \<Rightarrow> Some (Inl p, w1)
      | (Inr None, w1) \<Rightarrow> Some (Inr None, w1)
      | (Inr (Some err), w1) \<Rightarrow>
          if isPermanent err then Some (Inr (Some (unwrapPermanent err)), w1)
          else
            (case NextBackOff e' b' (backoffs w1) of
               None \<Rightarrow> Some (Inr (Some err), w1\<lparr>backoffs := Suc (backoffs w1)\<rparr>)
             | Some next \<Rightarrow>
                 loop e' operation b' (w1\<lparr>backoffs := Suc (backoffs w1)\<rparr>))) = Some y"
    show "?Q e' operation b' w y"
    proof (intro impI, elim conjE)
      assume e': "e' = e" and op: "operation = checkJobFinished e jobID"
      let ?w2 = "w\<lparr>queries := Suc (queries w), backoffs := Suc (backoffs w)\<rparr>"
      let ?p = "pollOutcome e jobID (queries w)"
      show "queries w < queries (snd y) \<and>
           (\<forall>k. queries w \<le> k \<and> k < queries (snd y) - 1 \<longrightarrow>
                retryable (pollOutcome e jobID k)) \<and>
           fst y = loopResult (pollOutcome e jobID (queries (snd y) - 1))"
      proof (cases "retryable ?p")
        case False
        then have "y = (loopResult ?p, w\<lparr>queries := Suc (queries w)\<rparr>)"
          using body op
          by (cases ?p rule: retryable.cases) (auto simp add: checkJobFinished_poll)
        then show ?thesis by auto
      next
        case True
        then obtain err where err: "?p = Inr (Some err)" "\<not> isPermanent err"
          by (cases ?p rule: retryable.cases) auto
        show ?thesis
        proof (cases "NextBackOff e b' (backoffs w)")
          case None
          with err have "y = (?p, ?w2)"
            using body op e' by (simp add: checkJobFinished_poll)
          with err show ?thesis by (cases err) auto
        next
          case (Some d)
          with err have rec: "loop e operation b' ?w2 = Some y"
            using body op e' by (simp add: checkJobFinished_poll)
          from IH [OF rec] op
          have ih: "queries ?w2 < queries (snd y)"
            "\<forall>k. queries ?w2 \<le> k \<and> k < queries (snd y) - 1 \<longrightarrow> retryable (pollOutcome e jobID k)"
            "fst y = loopResult (pollOutcome e jobID (queries (snd y) - 1))"
            by simp_all
          have "retryable (pollOutcome e jobID k)" if "queries w \<le> k" "k < queries (snd y) - 1" for k
          proof (cases "k = queries w")
            case True
            with \<open>retryable ?p\<close> show ?thesis by simp
          next
            case False
            with that have "queries ?w2 \<le> k" by simp
            with ih(2) that show ?thesis by blast
          qed
          with ih show ?thesis by auto
        qed
      qed
    qed
  qed
  then show ?thesis by simp
qed

section \<open>checkForJobCompletion, by the poll at which it ends\<close>

lemma checkForJobCompletion_loop:
  "checkForJobCompletion e jobID maxWaitTime w =
     map_option (\<lambda>(out, w'). (completionResult jobID out, w'))
       (RetryNotify_loop e (checkJobFinished e jobID)
          (asyncResponseBackoff (NewExponentialBackOff e) maxWaitTime) (w\<lparr>backoffs := 0\<rparr>))"
proof -
  have "(case out of Inl p \<Rightarrow> Some (Inl p, w')
         | Inr None \<Rightarrow> Some (Inr None, w')
         | Inr (Some err) \<Rightarrow>
             Some (Inr (Some (Errorf ''job Id %d failed to complete successfully'' [ArgInt jobID])), w'))
        = Some (completionResult jobID out, w')" for out :: outcome and w' :: world
    by (cases out rule: retryable.cases) simp_all
  then show ?thesis
    by (simp add: checkForJobCompletion_def RetryNotify_def Let_def
          split: option.splits prod.splits sum.splits)
qed

lemma checkForJobCompletion_ends_at:
  assumes reached: "\<forall>k<n. retried e jobID maxWaitTime w k"
    and stop: "\<not> retryable (pollOutcome e jobID (queries w + n))"
  shows "checkForJobCompletion e jobID maxWaitTime w =
           Some (completionResult jobID (loopResult (pollOutcome e jobID (queries w + n))),
                 w\<lparr>queries := queries w + n + 1, backoffs := n\<rparr>)"
proof -
  let ?b = "asyncResponseBackoff (NewExponentialBackOff e) maxWaitTime"
  let ?w0 = "w\<lparr>backoffs := 0\<rparr>"
  let ?wn = "?w0\<lparr>queries := queries ?w0 + n, backoffs := backoffs ?w0 + n\<rparr>"
  from reached
  have "\<forall>k<n. retryable (pollOutcome e jobID (queries ?w0 + k)) \<and>
              NextBackOff e ?b (backoffs ?w0 + k) \<noteq> None"
    by (simp add: retried_def)
  then have "RetryNotify_loop e (checkJobFinished e jobID) ?b ?w0 =
             RetryNotify_loop e (checkJobFinished e jobID) ?b ?wn"
    by (rule loop_skip)
  also from stop have "\<dots> = Some (loopResult (pollOutcome e jobID (queries ?wn)),
                                 ?wn\<lparr>queries := Suc (queries ?wn)\<rparr>)"
    by (intro loop_step_stop) simp
  finally show ?thesis
    by (simp add: checkForJobCompletion_loop)
qed

lemma checkForJobCompletion_budget_ends_at:
  assumes reached: "\<forall>k<n. retried e jobID maxWaitTime w k"
    and retry: "retryable (pollOutcome e jobID (queries w + n))"
    and stop: "NextBackOff e (asyncResponseBackoff (NewExponentialBackOff e) maxWaitTime) n = None"
  shows "checkForJobCompletion e jobID maxWaitTime w =
           Some (Inr (Some (Errorf ''job Id %d failed to complete successfully'' [ArgInt jobID])),
                 w\<lparr>queries := queries w + n + 1, backoffs := n + 1\<rparr>)"
proof -
  let ?b = "asyncResponseBackoff (NewExponentialBackOff e) maxWaitTime"
  let ?w0 = "w\<lparr>backoffs := 0\<rparr>"
  let ?wn = "?w0\<lparr>queries := queries ?w0 + n, backoffs := backoffs ?w0 + n\<rparr>"
  from retry obtain err where err: "pollOutcome e jobID (queries w + n) = Inr (Some err)"
    by (cases "pollOutcome e jobID (queries w + n)" rule: retryable.cases) auto
  from reached
  have "\<forall>k<n. retryable (pollOutcome e jobID (queries ?w0 + k)) \<and>
              NextBackOff e ?b (backoffs ?w0 + k) \<noteq> None"
    by (simp add: retried_def)
  then have "RetryNotify_loop e (checkJobFinished e jobID) ?b ?w0 =
             RetryNotify_loop e (checkJobFinished e jobID) ?b ?wn"
    by (rule loop_skip)
  also from retry stop
  have "\<dots> = Some (pollOutcome e jobID (queries ?wn),
                   ?wn\<lparr>queries := Suc (queries ?wn), backoffs := Suc (backoffs ?wn)\<rparr>)"
    by (intro loop_step_budget) simp_all
  finally show ?thesis
    using err by (simp add: checkForJobCompletion_loop)
qed


lemma observedJobState_query:
  assumes "JobGetIterStatus e k jobID = (Some r, None)"
    and "ResultStatusAttr (Result r) = ''passed''"
    and "AttributesListPtr (Result r) = Some attributesList"
    and "JobInfoPtr attributesList = jobInfo # rest"
  shows "observedJobState e jobID k = Some (JobState jobInfo)"
  using assms by (simp add: observedJobState_def)

section \<open>The claims about checkForJobCompletion\<close>

text \<open>
  Claim C1. Take any call of \<open>checkForJobCompletion\<close> and any of its polls, say poll
  number \<open>n\<close> (the polls before it were retried, which is how it is reached). If the
  status query of that poll succeeds (no error, result status \<open>passed\<close>, attributes
  present with a first job-info entry) and the job state is \<open>failure\<close>, \<open>error\<close>,
  \<open>quit\<close> or \<open>dead\<close>, then the call returns a non-nil error and has issued exactly
  the \<open>n + 1\<close> queries up to this poll: none follows. Nothing is assumed about what
  the backoff would answer at this poll, so this holds however much of the maximum wait
  remains.
\<close>

theorem checkForJobCompletion_terminal_failure:
  assumes reached: "\<forall>k<n. retried e jobID maxWaitTime w k"
    and query: "JobGetIterStatus e (queries w + n) jobID = (Some r, None)"
    and passed: "ResultStatusAttr (Result r) = ''passed''"
    and attrs: "AttributesListPtr (Result r) = Some attributesList"
    and info: "JobInfoPtr attributesList = jobInfo # rest"
    and state: "JobState jobInfo \<in> {''failure'', ''error'', ''quit'', ''dead''}"
  shows "checkForJobCompletion e jobID maxWaitTime w =
           Some (Inr (Some (Errorf ''job Id %d failed to complete successfully'' [ArgInt jobID])),
                 w\<lparr>queries := queries w + n + 1, backoffs := n\<rparr>)"
proof -
  have obs: "observedJobState e jobID (queries w + n) = Some (JobState jobInfo)"
    using query passed attrs info by (rule observedJobState_query)
  from state have "terminalFailure (JobState jobInfo)"
    by (auto simp add: terminalFailure_def)
  from pollOutcome_observed_failure [OF obs this]
  have poll: "pollOutcome e jobID (queries w + n) =
                Inr (Some (PermanentError (Errorf ''job %d failed to complete. job state: %v''
                                             [ArgInt jobID, ArgString (JobState jobInfo)])))" .
  then have "\<not> retryable (pollOutcome e jobID (queries w + n))" by simp
  from checkForJobCompletion_ends_at [OF reached this] poll
  show ?thesis by simp
qed

theorem checkForJobCompletion_terminal_failure_witness:
  "retried envFailsAtThird 7 (30 * Second) initialWorld 0 \<and>
   retried envFailsAtThird 7 (30 * Second) initialWorld 1 \<and>
   JobGetIterStatus envFailsAtThird (queries initialWorld + 2) 7 =
     (Some (passedResponse ''failure''), None) \<and>
   ResultStatusAttr (Result (passedResponse ''failure'')) = ''passed'' \<and>
   AttributesListPtr (Result (passedResponse ''failure'')) =
     Some \<lparr>JobInfoPtr = [\<lparr>JobState = ''failure''\<rparr>]\<rparr> \<and>
   JobState \<lparr>JobState = ''failure''\<rparr> \<in> {''failure'', ''error'', ''quit'', ''dead''} \<and>
   checkForJobCompletion envFailsAtThird 7 (30 * Second) initialWorld =
     Some (Inr (Some (Errorf ''job Id %d failed to complete successfully'' [ArgInt 7])),
           \<lparr>queries = 3, backoffs = 2\<rparr>)"
proof -
  have r0: "retried envFailsAtThird 7 (30 * Second) initialWorld 0"
    by (simp add: retried_def pollOutcome_def checkJobFinished_def envFailsAtThird_def
          scriptedEnv_def passedResponse_def initialWorld_def)
  have r1: "retried envFailsAtThird 7 (30 * Second) initialWorld 1"
    by (simp add: retried_def pollOutcome_def checkJobFinished_def envFailsAtThird_def
          scriptedEnv_def passedResponse_def initialWorld_def)
  from r0 r1 have reached: "\<forall>k<2. retried envFailsAtThird 7 (30 * Second) initialWorld k"
    by (auto simp add: less_2_cases_iff)
  have query: "JobGetIterStatus envFailsAtThird (queries initialWorld + 2) 7 =
                 (Some (passedResponse ''failure''), None)"
    by (simp add: envFailsAtThird_def scriptedEnv_def initialWorld_def)
  have passed: "ResultStatusAttr (Result (passedResponse ''failure'')) = ''passed''"
    by (simp add: passedResponse_def)
  have attrs: "AttributesListPtr (Result (passedResponse ''failure'')) =
                 Some \<lparr>JobInfoPtr = [\<lparr>JobState = ''failure''\<rparr>]\<rparr>"
    by (simp add: passedResponse_def)
  have info: "JobInfoPtr \<lparr>JobInfoPtr = [\<lparr>JobState = ''failure''\<rparr>]\<rparr> = \<lparr>JobState = ''failure''\<rparr> # []"
    by simp
  have state: "JobState \<lparr>JobState = ''failure''\<rparr> \<in> {''failure'', ''error'', ''quit'', ''dead''}"
    by simp
  from checkForJobCompletion_terminal_failure [OF reached query passed attrs info state]
  have "checkForJobCompletion envFailsAtThird 7 (30 * Second) initialWorld =
     Some (Inr (Some (Errorf ''job Id %d failed to complete successfully'' [ArgInt 7])),
           \<lparr>queries = 3, backoffs = 2\<rparr>)"
    by (simp add: initialWorld_def)
  with r0 r1 query passed attrs state show ?thesis by simp
qed

text \<open>
  Claim C4. If the first status query of a call succeeds and reports the job state
  \<open>success\<close>, the call returns nil and has issued exactly one status query.
\<close>

theorem checkForJobCompletion_first_success:
  assumes query: "JobGetIterStatus e (queries w) jobID = (Some r, None)"
    and passed: "ResultStatusAttr (Result r) = ''passed''"
    and attrs: "AttributesListPtr (Result r) = Some attributesList"
    and info: "JobInfoPtr attributesList = jobInfo # rest"
    and state: "JobState jobInfo = ''success''"
  shows "checkForJobCompletion e jobID maxWaitTime w =
           Some (Inr None, w\<lparr>queries := queries w + 1, backoffs := 0\<rparr>)"
proof -
  have "observedJobState e jobID (queries w) = Some ''success''"
    using observedJobState_query [OF query passed attrs info] state by simp
  then have poll: "pollOutcome e jobID (queries w + 0) = Inr None"
    by (simp add: pollOutcome_observed_success)
  then have stop: "\<not> retryable (pollOutcome e jobID (queries w + 0))" by simp
  have "\<forall>k<0. retried e jobID maxWaitTime w k" by simp
  from checkForJobCompletion_ends_at [OF this stop] poll
  show ?thesis by simp
qed

theorem checkForJobCompletion_first_success_witness:
  "JobGetIterStatus envSucceedsAtFirst (queries initialWorld) 7 =
     (Some (passedResponse ''success''), None) \<and>
   ResultStatusAttr (Result (passedResponse ''success'')) = ''passed'' \<and>
   AttributesListPtr (Result (passedResponse ''success'')) =
     Some \<lparr>JobInfoPtr = [\<lparr>JobState = ''success''\<rparr>]\<rparr> \<and>
   JobState \<lparr>JobState = ''success''\<rparr> = ''success'' \<and>
   checkForJobCompletion envSucceedsAtFirst 7 (30 * Second) initialWorld =
     Some (Inr None, \<lparr>queries = 1, backoffs = 0\<rparr>)"
proof -
  have query: "JobGetIterStatus envSucceedsAtFirst (queries initialWorld) 7 =
                 (Some (passedResponse ''success''), None)"
    by (simp add: envSucceedsAtFirst_def scriptedEnv_def)
  have passed: "ResultStatusAttr (Result (passedResponse ''success'')) = ''passed''"
    by (simp add: passedResponse_def)
  have attrs: "AttributesListPtr (Result (passedResponse ''success'')) =
                 Some \<lparr>JobInfoPtr = [\<lparr>JobState = ''success''\<rparr>]\<rparr>"
    by (simp add: passedResponse_def)
  have info: "JobInfoPtr \<lparr>JobInfoPtr = [\<lparr>JobState = ''success''\<rparr>]\<rparr> = \<lparr>JobState = ''success''\<rparr> # []"
    by simp
  have state: "JobState \<lparr>JobState = ''success''\<rparr> = ''success''"
    by simp
  from checkForJobCompletion_first_success [OF query passed attrs info state]
  have "checkForJobCompletion envSucceedsAtFirst 7 (30 * Second) initialWorld =
          Some (Inr None, \<lparr>queries = 1, backoffs = 0\<rparr>)"
    by (simp add: initialWorld_def)
  with query passed attrs state show ?thesis by simp
qed

text \<open>
  Claim C3. Whatever the status queries answer: a call that returns has issued at least
  one query; no query before its last one observed a terminal state (\<open>success\<close> or one
  of the four failure states), so no query follows the observation of one; it returns nil
  only if its last query observed \<open>success\<close>; and if its last query observed a
  terminal failure state it returns the non-nil error. Moreover a terminal state cannot
  be overlooked by a run that goes on for ever: as soon as a poll that is reached
  observes a terminal state, the call returns, with this poll as its last, nil for
  \<open>success\<close> and the error otherwise.
\<close>

theorem checkForJobCompletion_nil_only_on_success:
  "(checkForJobCompletion e jobID maxWaitTime w = Some (out, w') \<longrightarrow>
      queries w < queries w' \<and>
      (\<forall>k s. queries w \<le> k \<and> k < queries w' - 1 \<and> observedJobState e jobID k = Some s \<longrightarrow>
             s \<noteq> ''success'' \<and> \<not> terminalFailure s) \<and>
      (out = Inr None \<longrightarrow> observedJobState e jobID (queries w' - 1) = Some ''success'') \<and>
      (\<forall>s. observedJobState e jobID (queries w' - 1) = Some s \<and> terminalFailure s \<longrightarrow>
           out = Inr (Some (Errorf ''job Id %d failed to complete successfully'' [ArgInt jobID])))) \<and>
   ((\<forall>k<n. retried e jobID maxWaitTime w k) \<and>
    observedJobState e jobID (queries w + n) = Some s \<and>
    (s = ''success'' \<or> terminalFailure s) \<longrightarrow>
      checkForJobCompletion e jobID maxWaitTime w =
        Some (if s = ''success'' then Inr None
              else Inr (Some (Errorf ''job Id %d failed to complete successfully'' [ArgInt jobID])),
              w\<lparr>queries := queries w + n + 1, backoffs := n\<rparr>))"
proof (intro conjI impI)
  assume ret: "checkForJobCompletion e jobID maxWaitTime w = Some (out, w')"
  let ?b = "asyncResponseBackoff (NewExponentialBackOff e) maxWaitTime"
  from ret obtain y
    where loop: "RetryNotify_loop e (checkJobFinished e jobID) ?b (w\<lparr>backoffs := 0\<rparr>) = Some y"
      and out: "out = completionResult jobID (fst y)" and w': "w' = snd y"
    by (auto simp add: checkForJobCompletion_loop split: prod.splits)
  from loop_returns_inv [OF loop] w'
  have lt: "queries w < queries w'"
    and before: "\<forall>k. queries w \<le> k \<and> k < queries w' - 1 \<longrightarrow> retryable (pollOutcome e jobID k)"
    and last: "fst y = loopResult (pollOutcome e jobID (queries w' - 1))"
    by simp_all
  from lt show "queries w < queries w'" .
  from before
  show "\<forall>k s. queries w \<le> k \<and> k < queries w' - 1 \<and> observedJobState e jobID k = Some s \<longrightarrow>
             s \<noteq> ''success'' \<and> \<not> terminalFailure s"
    using retryable_not_terminal by blast
  show "observedJobState e jobID (queries w' - 1) = Some ''success''" if "out = Inr None"
  proof -
    from that out last have "pollOutcome e jobID (queries w' - 1) = Inr None"
      by (cases "pollOutcome e jobID (queries w' - 1)" rule: retryable.cases) simp_all
    then show ?thesis by (simp add: pollOutcome_nil_iff)
  qed
  show "\<forall>s. observedJobState e jobID (queries w' - 1) = Some s \<and> terminalFailure s \<longrightarrow>
           out = Inr (Some (Errorf ''job Id %d failed to complete successfully'' [ArgInt jobID]))"
  proof (intro allI impI, elim conjE)
    fix s
    assume "observedJobState e jobID (queries w' - 1) = Some s" and "terminalFailure s"
    from pollOutcome_observed_failure [OF this] out last
    show "out = Inr (Some (Errorf ''job Id %d failed to complete successfully'' [ArgInt jobID]))"
      by simp
  qed
next
  assume asm: "(\<forall>k<n. retried e jobID maxWaitTime w k) \<and>
    observedJobState e jobID (queries w + n) = Some s \<and>
    (s = ''success'' \<or> terminalFailure s)"
  then have reached: "\<forall>k<n. retried e jobID maxWaitTime w k"
    and obs: "observedJobState e jobID (queries w + n) = Some s"
    and terminal: "s = ''success'' \<or> terminalFailure s"
    by simp_all
  show "checkForJobCompletion e jobID maxWaitTime w =
        Some (if s = ''success'' then Inr None
              else Inr (Some (Errorf ''job Id %d failed to complete successfully'' [ArgInt jobID])),
              w\<lparr>queries := queries w + n + 1, backoffs := n\<rparr>)"
  proof (cases "s = ''success''")
    case True
    with obs have poll: "pollOutcome e jobID (queries w + n) = Inr None"
      by (simp add: pollOutcome_observed_success)
    then have "\<not> retryable (pollOutcome e jobID (queries w + n))" by simp
    from checkForJobCompletion_ends_at [OF reached this] poll True
    show ?thesis by simp
  next
    case False
    with terminal have "terminalFailure s" by simp
    from pollOutcome_observed_failure [OF obs this]
    have poll: "pollOutcome e jobID (queries w + n) =
                  Inr (Some (PermanentError (Errorf ''job %d failed to complete. job state: %v''
                                               [ArgInt jobID, ArgString s])))" .
    then have "\<not> retryable (pollOutcome e jobID (queries w + n))" by simp
    from checkForJobCompletion_ends_at [OF reached this] poll False
    show ?thesis by simp
  qed
qed

lemma sample_ends_at_third:
  assumes "JobGetIterStatus e = (\<lambda>k jobID. if k < 2 then (Some (passedResponse ''running''), None)
                                          else (Some (passedResponse s), None))"
    and "\<And>b k. NextBackOff e b k \<noteq> None"
  shows "retried e jobID maxWaitTime initialWorld 0"
    and "retried e jobID maxWaitTime initialWorld 1"
    and "observedJobState e jobID 2 = Some s"
  using assms
  by (simp_all add: retried_def pollOutcome_def checkJobFinished_def passedResponse_def
        initialWorld_def observedJobState_def)

theorem checkForJobCompletion_nil_only_on_success_witness:
  "checkForJobCompletion envSucceedsAtThird 7 (30 * Second) initialWorld =
     Some (Inr None, \<lparr>queries = 3, backoffs = 2\<rparr>) \<and>
   queries initialWorld < queries \<lparr>queries = 3, backoffs = 2\<rparr> \<and>
   observedJobState envSucceedsAtThird 7 0 = Some ''running'' \<and>
   observedJobState envSucceedsAtThird 7 1 = Some ''running'' \<and>
   observedJobState envSucceedsAtThird 7 2 = Some ''success'' \<and>
   retried envFailsAtThird 7 (30 * Second) initialWorld 0 \<and>
   retried envFailsAtThird 7 (30 * Second) initialWorld 1 \<and>
   observedJobState envFailsAtThird 7 2 = Some ''failure'' \<and>
   terminalFailure ''failure'' \<and>
   checkForJobCompletion envFailsAtThird 7 (30 * Second) initialWorld =
     Some (Inr (Some (Errorf ''job Id %d failed to complete successfully'' [ArgInt 7])),
           \<lparr>queries = 3, backoffs = 2\<rparr>)"
proof -
  have s0: "retried envSucceedsAtThird 7 (30 * Second) initialWorld 0"
    and s1: "retried envSucceedsAtThird 7 (30 * Second) initialWorld 1"
    and s2: "observedJobState envSucceedsAtThird 7 2 = Some ''success''"
    by (rule sample_ends_at_third; simp add: envSucceedsAtThird_def scriptedEnv_def)+
  have o0: "observedJobState envSucceedsAtThird 7 0 = Some ''running''"
    and o1: "observedJobState envSucceedsAtThird 7 1 = Some ''running''"
    by (simp_all add: observedJobState_def envSucceedsAtThird_def scriptedEnv_def passedResponse_def)
  have f0: "retried envFailsAtThird 7 (30 * Second) initialWorld 0"
    and f1: "retried envFailsAtThird 7 (30 * Second) initialWorld 1"
    and f2: "observedJobState envFailsAtThird 7 2 = Some ''failure''"
    by (rule sample_ends_at_third; simp add: envFailsAtThird_def scriptedEnv_def)+
  have tf: "terminalFailure ''failure''"
    by (simp add: terminalFailure_def)
  from s0 s1 have sreached: "\<forall>k<2. retried envSucceedsAtThird 7 (30 * Second) initialWorld k"
    by (auto simp add: less_2_cases_iff)
  from f0 f1 have freached: "\<forall>k<2. retried envFailsAtThird 7 (30 * Second) initialWorld k"
    by (auto simp add: less_2_cases_iff)
  note thm_s = checkForJobCompletion_nil_only_on_success
    [of envSucceedsAtThird 7 "30 * Second" initialWorld "Inr None" "\<lparr>queries = 3, backoffs = 2\<rparr>"
        2 "''success''"]
  note thm_f = checkForJobCompletion_nil_only_on_success
    [of envFailsAtThird 7 "30 * Second" initialWorld "Inr None" "\<lparr>queries = 3, backoffs = 2\<rparr>"
        2 "''failure''"]
  have q2: "queries initialWorld + 2 = 2"
    by (simp add: initialWorld_def)
  from s2 have s2': "observedJobState envSucceedsAtThird 7 (queries initialWorld + 2) = Some ''success''"
    by (simp only: q2)
  from f2 have f2': "observedJobState envFailsAtThird 7 (queries initialWorld + 2) = Some ''failure''"
    by (simp only: q2)
  from thm_s [THEN conjunct2, THEN mp, OF conjI [OF sreached conjI [OF s2' disjI1 [OF refl]]]]
  have rs: "checkForJobCompletion envSucceedsAtThird 7 (30 * Second) initialWorld =
              Some (Inr None, \<lparr>queries = 3, backoffs = 2\<rparr>)"
    by (simp add: initialWorld_def)
  from thm_f [THEN conjunct2, THEN mp, OF conjI [OF freached conjI [OF f2' disjI2 [OF tf]]]]
  have rf: "checkForJobCompletion envFailsAtThird 7 (30 * Second) initialWorld =
     Some (Inr (Some (Errorf ''job Id %d failed to complete successfully'' [ArgInt 7])),
           \<lparr>queries = 3, backoffs = 2\<rparr>)"
    by (simp add: initialWorld_def)
  from thm_s [THEN conjunct1, THEN mp, OF rs, THEN conjunct1]
  have "queries initialWorld < queries \<lparr>queries = 3, backoffs = 2\<rparr>" .
  with rs o0 o1 s2 f0 f1 f2 tf rf show ?thesis by simp
qed

text \<open>
  Claim C2, as amended. The claim says that the error returned when the backoff budget
  is exhausted can be told from the error returned for a terminal failure state, and
  that the latter carries the observed job state. The code returns one and the same
  error in both cases. What holds: every non-nil error that \<open>checkForJobCompletion\<close>
  returns is \<open>job Id <id> failed to complete successfully\<close>, naming the job id and
  nothing else; this is the error returned when the backoff stops at a poll whose
  outcome was retryable; and the error with the job id and the observed state is made
  by the per-poll check, as a permanent error that ends the retry loop, and is dropped
  there.
\<close>

theorem checkForJobCompletion_error_names_job_id_only:
  "(checkForJobCompletion e jobID maxWaitTime w = Some (Inr (Some err), w') \<longrightarrow>
      err = Errorf ''job Id %d failed to complete successfully'' [ArgInt jobID]) \<and>
   ((\<forall>k<n. retried e jobID maxWaitTime w k) \<and>
    retryable (pollOutcome e jobID (queries w + n)) \<and>
    NextBackOff e (asyncResponseBackoff (NewExponentialBackOff e) maxWaitTime) n = None \<longrightarrow>
      checkForJobCompletion e jobID maxWaitTime w =
        Some (Inr (Some (Errorf ''job Id %d failed to complete successfully'' [ArgInt jobID])),
              w\<lparr>queries := queries w + n + 1, backoffs := n + 1\<rparr>)) \<and>
   (observedJobState e jobID (queries w) = Some s \<and> terminalFailure s \<longrightarrow>
      fst (checkJobFinished e jobID w) =
        Inr (Some (PermanentError (Errorf ''job %d failed to complete. job state: %v''
                                     [ArgInt jobID, ArgString s]))))"
proof (intro conjI impI)
  assume "checkForJobCompletion e jobID maxWaitTime w = Some (Inr (Some err), w')"
  then obtain out where "completionResult jobID out = Inr (Some err)"
    by (auto simp add: checkForJobCompletion_loop split: prod.splits)
  then show "err = Errorf ''job Id %d failed to complete successfully'' [ArgInt jobID]"
    by (cases out rule: retryable.cases) simp_all
next
  assume "(\<forall>k<n. retried e jobID maxWaitTime w k) \<and>
    retryable (pollOutcome e jobID (queries w + n)) \<and>
    NextBackOff e (asyncResponseBackoff (NewExponentialBackOff e) maxWaitTime) n = None"
  then show "checkForJobCompletion e jobID maxWaitTime w =
        Some (Inr (Some (Errorf ''job Id %d failed to complete successfully'' [ArgInt jobID])),
              w\<lparr>queries := queries w + n + 1, backoffs := n + 1\<rparr>)"
    by (intro checkForJobCompletion_budget_ends_at) simp_all
next
  assume "observedJobState e jobID (queries w) = Some s \<and> terminalFailure s"
  then have "pollOutcome e jobID (queries w) =
               Inr (Some (PermanentError (Errorf ''job %d failed to complete. job state: %v''
                                            [ArgInt jobID, ArgString s])))"
    by (simp add: pollOutcome_observed_failure)
  then show "fst (checkJobFinished e jobID w) =
        Inr (Some (PermanentError (Errorf ''job %d failed to complete. job state: %v''
                                     [ArgInt jobID, ArgString s])))"
    by (simp add: checkJobFinished_poll)
qed

lemma sample_budget_ends:
  "checkForJobCompletion envBudgetEnds 7 (30 * Second) initialWorld =
     Some (Inr (Some (Errorf ''job Id %d failed to complete successfully'' [ArgInt 7])),
           \<lparr>queries = 2, backoffs = 2\<rparr>)"
proof -
  have r0: "retried envBudgetEnds 7 (30 * Second) initialWorld 0"
    by (simp add: retried_def pollOutcome_def checkJobFinished_def envBudgetEnds_def
          scriptedEnv_def passedResponse_def initialWorld_def)
  then have reached: "\<forall>k<1. retried envBudgetEnds 7 (30 * Second) initialWorld k"
    by simp
  have retry: "retryable (pollOutcome envBudgetEnds 7 (queries initialWorld + 1))"
    by (simp add: pollOutcome_def checkJobFinished_def envBudgetEnds_def
          scriptedEnv_def passedResponse_def initialWorld_def)
  have stop: "NextBackOff envBudgetEnds
                (asyncResponseBackoff (NewExponentialBackOff envBudgetEnds) (30 * Second)) 1 = None"
    by (simp add: envBudgetEnds_def scriptedEnv_def)
  from checkForJobCompletion_budget_ends_at [OF reached retry stop]
  show ?thesis by (simp add: initialWorld_def)
qed

lemma sample_fails_at_first:
  "checkForJobCompletion envFailsAtFirst 7 (30 * Second) initialWorld =
     Some (Inr (Some (Errorf ''job Id %d failed to complete successfully'' [ArgInt 7])),
           \<lparr>queries = 1, backoffs = 0\<rparr>)"
proof -
  have poll: "pollOutcome envFailsAtFirst 7 (queries initialWorld + 0) =
                Inr (Some (PermanentError (Errorf ''job %d failed to complete. job state: %v''
                                             [ArgInt 7, ArgString ''failure''])))"
    by (simp add: pollOutcome_def checkJobFinished_def envFailsAtFirst_def
          scriptedEnv_def passedResponse_def initialWorld_def)
  then have stop: "\<not> retryable (pollOutcome envFailsAtFirst 7 (queries initialWorld + 0))"
    by simp
  have "\<forall>k<0. retried envFailsAtFirst 7 (30 * Second) initialWorld k" by simp
  from checkForJobCompletion_ends_at [OF this stop] poll
  show ?thesis by (simp add: initialWorld_def)
qed

theorem checkForJobCompletion_error_names_job_id_only_witness:
  "checkForJobCompletion envFailsAtFirst 7 (30 * Second) initialWorld =
     Some (Inr (Some (Errorf ''job Id %d failed to complete successfully'' [ArgInt 7])),
           \<lparr>queries = 1, backoffs = 0\<rparr>) \<and>
   retried envBudgetEnds 7 (30 * Second) initialWorld 0 \<and>
   retryable (pollOutcome envBudgetEnds 7 (queries initialWorld + 1)) \<and>
   NextBackOff envBudgetEnds
     (asyncResponseBackoff (NewExponentialBackOff envBudgetEnds) (30 * Second)) 1 = None \<and>
   checkForJobCompletion envBudgetEnds 7 (30 * Second) initialWorld =
     Some (Inr (Some (Errorf ''job Id %d failed to complete successfully'' [ArgInt 7])),
           \<lparr>queries = 2, backoffs = 2\<rparr>) \<and>
   observedJobState envFailsAtFirst 7 (queries initialWorld) = Some ''failure'' \<and>
   terminalFailure ''failure'' \<and>
   fst (checkJobFinished envFailsAtFirst 7 initialWorld) =
     Inr (Some (PermanentError (Errorf ''job %d failed to complete. job state: %v''
                                  [ArgInt 7, ArgString ''failure''])))"
proof -
  have obs: "observedJobState envFailsAtFirst 7 (queries initialWorld) = Some ''failure''"
    by (simp add: observedJobState_def envFailsAtFirst_def scriptedEnv_def passedResponse_def)
  have tf: "terminalFailure ''failure''"
    by (simp add: terminalFailure_def)
  have r0: "retried envBudgetEnds 7 (30 * Second) initialWorld 0"
    by (simp add: retried_def pollOutcome_def checkJobFinished_def envBudgetEnds_def
          scriptedEnv_def passedResponse_def initialWorld_def)
  then have reached: "\<forall>k<1. retried envBudgetEnds 7 (30 * Second) initialWorld k"
    by simp
  have retry: "retryable (pollOutcome envBudgetEnds 7 (queries initialWorld + 1))"
    by (simp add: pollOutcome_def checkJobFinished_def envBudgetEnds_def
          scriptedEnv_def passedResponse_def initialWorld_def)
  have stop: "NextBackOff envBudgetEnds
                (asyncResponseBackoff (NewExponentialBackOff envBudgetEnds) (30 * Second)) 1 = None"
    by (simp add: envBudgetEnds_def scriptedEnv_def)
  note failed = checkForJobCompletion_error_names_job_id_only
    [of envFailsAtFirst 7 "30 * Second" initialWorld
        "Errorf ''job Id %d failed to complete successfully'' [ArgInt 7]"
        "\<lparr>queries = 1, backoffs = 0\<rparr>" 0 "''failure''"]
  note timeout = checkForJobCompletion_error_names_job_id_only
    [of envBudgetEnds 7 "30 * Second" initialWorld
        "Errorf ''job Id %d failed to complete successfully'' [ArgInt 7]"
        "\<lparr>queries = 2, backoffs = 2\<rparr>" 1 "''running''"]
  from failed [THEN conjunct2, THEN conjunct2, THEN mp, OF conjI [OF obs tf]]
  have poll: "fst (checkJobFinished envFailsAtFirst 7 initialWorld) =
     Inr (Some (PermanentError (Errorf ''job %d failed to complete. job state: %v''
                                  [ArgInt 7, ArgString ''failure''])))" .
  from timeout [THEN conjunct2, THEN conjunct1, THEN mp, OF conjI [OF reached conjI [OF retry stop]]]
  have run: "checkForJobCompletion envBudgetEnds 7 (30 * Second) initialWorld =
     Some (Inr (Some (Errorf ''job Id %d failed to complete successfully'' [ArgInt 7])),
           \<lparr>queries = 2, backoffs = 2\<rparr>)"
    by (simp add: initialWorld_def)
  from sample_fails_at_first r0 retry stop run obs tf poll show ?thesis by (intro conjI)
qed

text \<open>
  The counterexample to claim C2 as stated: a run in which the budget ends while the job
  is still running and a run in which the job has failed return the same error, and this
  error names the job id 7 but no job state.
\<close>

theorem checkForJobCompletion_timeout_and_failure_same_error:
  "map_option fst (checkForJobCompletion envBudgetEnds 7 (30 * Second) initialWorld) =
   map_option fst (checkForJobCompletion envFailsAtFirst 7 (30 * Second) initialWorld) \<and>
   observedJobState envBudgetEnds 7 0 = Some ''running'' \<and>
   observedJobState envBudgetEnds 7 1 = Some ''running'' \<and>
   observedJobState envFailsAtFirst 7 0 = Some ''failure'' \<and>
   map_option fst (checkForJobCompletion envFailsAtFirst 7 (30 * Second) initialWorld) =
     Some (Inr (Some (Errorf ''job Id %d failed to complete successfully'' [ArgInt 7])))"
proof -
  have runs: "map_option fst (checkForJobCompletion envBudgetEnds 7 (30 * Second) initialWorld) =
              map_option fst (checkForJobCompletion envFailsAtFirst 7 (30 * Second) initialWorld)"
    and err: "map_option fst (checkForJobCompletion envFailsAtFirst 7 (30 * Second) initialWorld) =
     Some (Inr (Some (Errorf ''job Id %d failed to complete successfully'' [ArgInt 7])))"
    by (simp_all add: sample_budget_ends sample_fails_at_first)
  have "observedJobState envBudgetEnds 7 0 = Some ''running''"
    and "observedJobState envBudgetEnds 7 1 = Some ''running''"
    and "observedJobState envFailsAtFirst 7 0 = Some ''failure''"
    by (simp_all add: observedJobState_def envBudgetEnds_def envFailsAtFirst_def
          scriptedEnv_def passedResponse_def)
  with runs err show ?thesis by (intro conjI)
qed

section \<open>The claims about WaitForAsyncResponse\<close>

text \<open>
  Claim C5. If \<open>NewZapiAsyncResult\<close> returns a non-nil error, \<open>WaitForAsyncResponse\<close>
  returns that very error and the world is unchanged: no status query is issued.
  Likewise, if the extraction succeeds with the status \<open>failed\<close>, it returns an error
  that carries the extracted error code, again without a status query.
\<close>

theorem WaitForAsyncResponse_submission_failed:
  "(NewZapiAsyncResult zapiResult = (asyncResult, Some err) \<longrightarrow>
      WaitForAsyncResponse e zapiResult maxWaitTime w = Some (Inr (Some err), w)) \<and>
   (NewZapiAsyncResult zapiResult = (asyncResult, None) \<and> status asyncResult = ''failed'' \<longrightarrow>
      WaitForAsyncResponse e zapiResult maxWaitTime w =
        Some (Inr (Some (Errorf ''result status is failed with errorCode %d''
                           [ArgInt (errorCode asyncResult)])), w))"
  by (simp add: WaitForAsyncResponse_def)

theorem WaitForAsyncResponse_submission_failed_witness:
  "NewZapiAsyncResult Unrecognized = (zeroZapiAsyncResult, Some (ZapiError [] [] [])) \<and>
   WaitForAsyncResponse envSucceedsAtFirst Unrecognized (30 * Second) initialWorld =
     Some (Inr (Some (ZapiError [] [] [])), initialWorld) \<and>
   NewZapiAsyncResult (submissionWithStatus ''failed'') =
     (\<lparr>jobId = 7, status = ''failed'', errorCode = 13\<rparr>, None) \<and>
   status \<lparr>jobId = 7, status = ''failed'', errorCode = 13\<rparr> = ''failed'' \<and>
   WaitForAsyncResponse envSucceedsAtFirst (submissionWithStatus ''failed'') (30 * Second)
       initialWorld =
     Some (Inr (Some (Errorf ''result status is failed with errorCode %d'' [ArgInt 13])),
           initialWorld)"
proof -
  have x1: "NewZapiAsyncResult Unrecognized = (zeroZapiAsyncResult, Some (ZapiError [] [] []))"
    by (simp add: NewZapiAsyncResult_def extractZapiAsyncResult_def)
  have x2: "NewZapiAsyncResult (submissionWithStatus ''failed'') =
              (\<lparr>jobId = 7, status = ''failed'', errorCode = 13\<rparr>, None)"
    by (simp add: NewZapiAsyncResult_def extractZapiAsyncResult_def submissionWithStatus_def)
  have st: "status \<lparr>jobId = 7, status = ''failed'', errorCode = 13\<rparr> = ''failed''"
    by simp
  from WaitForAsyncResponse_submission_failed
         [of Unrecognized zeroZapiAsyncResult "ZapiError [] [] []" envSucceedsAtFirst
             "30 * Second" initialWorld, THEN conjunct1, THEN mp, OF x1]
  have r1: "WaitForAsyncResponse envSucceedsAtFirst Unrecognized (30 * Second) initialWorld =
              Some (Inr (Some (ZapiError [] [] [])), initialWorld)" .
  from WaitForAsyncResponse_submission_failed
         [of "submissionWithStatus ''failed''" "\<lparr>jobId = 7, status = ''failed'', errorCode = 13\<rparr>"
             _ envSucceedsAtFirst "30 * Second" initialWorld,
          THEN conjunct2, THEN mp, OF conjI [OF x2 st]]
  have r2: "WaitForAsyncResponse envSucceedsAtFirst (submissionWithStatus ''failed'') (30 * Second)
              initialWorld =
            Some (Inr (Some (Errorf ''result status is failed with errorCode %d'' [ArgInt 13])),
                  initialWorld)"
    by simp
  from x1 r1 x2 st r2 show ?thesis by (intro conjI)
qed

text \<open>
  Claim C7. When \<open>WaitForAsyncResponse\<close> extracts the status \<open>succeeded\<close> from the
  submission result (the extraction returns it with a nil error), it returns nil and
  the world is unchanged: no status query is issued.
\<close>

theorem WaitForAsyncResponse_succeeded:
  assumes "NewZapiAsyncResult zapiResult = (asyncResult, None)"
    and "status asyncResult = ''succeeded''"
  shows "WaitForAsyncResponse e zapiResult maxWaitTime w = Some (Inr None, w)"
  using assms by (simp add: WaitForAsyncResponse_def)

theorem WaitForAsyncResponse_succeeded_witness:
  "NewZapiAsyncResult (submissionWithStatus ''succeeded'') =
     (\<lparr>jobId = 7, status = ''succeeded'', errorCode = 13\<rparr>, None) \<and>
   status \<lparr>jobId = 7, status = ''succeeded'', errorCode = 13\<rparr> = ''succeeded'' \<and>
   WaitForAsyncResponse envFailsAtFirst (submissionWithStatus ''succeeded'') (30 * Second)
       initialWorld =
     Some (Inr None, initialWorld)"
proof -
  have x: "NewZapiAsyncResult (submissionWithStatus ''succeeded'') =
             (\<lparr>jobId = 7, status = ''succeeded'', errorCode = 13\<rparr>, None)"
    by (simp add: NewZapiAsyncResult_def extractZapiAsyncResult_def submissionWithStatus_def)
  have st: "status \<lparr>jobId = 7, status = ''succeeded'', errorCode = 13\<rparr> = ''succeeded''"
    by simp
  from x st WaitForAsyncResponse_succeeded [OF x st, of envFailsAtFirst "30 * Second" initialWorld]
  show ?thesis by (intro conjI)
qed

text \<open>
  Claim C9. Whenever the extracted status (returned with a nil error) is any string
  other than \<open>in_progress\<close> and \<open>failed\<close>, the empty string and unknown statuses
  included, \<open>WaitForAsyncResponse\<close> returns nil and the world is unchanged: an
  unknown initial status counts as success, and no status query is issued.
\<close>

theorem WaitForAsyncResponse_other_status:
  assumes "NewZapiAsyncResult zapiResult = (asyncResult, None)"
    and "status asyncResult \<noteq> ''in_progress''"
    and "status asyncResult \<noteq> ''failed''"
  shows "WaitForAsyncResponse e zapiResult maxWaitTime w = Some (Inr None, w)"
  using assms by (simp add: WaitForAsyncResponse_def)

theorem WaitForAsyncResponse_other_status_witness:
  "NewZapiAsyncResult (AsyncResponse \<lparr>ResultStatusPtr = None, ResultJobidPtr = None,
                                       ResultErrorCodePtr = None\<rparr>) =
     (\<lparr>jobId = 0, status = [], errorCode = 0\<rparr>, None) \<and>
   status \<lparr>jobId = 0, status = [], errorCode = 0\<rparr> \<noteq> ''in_progress'' \<and>
   status \<lparr>jobId = 0, status = [], errorCode = 0\<rparr> \<noteq> ''failed'' \<and>
   WaitForAsyncResponse envFailsAtFirst
       (AsyncResponse \<lparr>ResultStatusPtr = None, ResultJobidPtr = None, ResultErrorCodePtr = None\<rparr>)
       (30 * Second) initialWorld =
     Some (Inr None, initialWorld) \<and>
   NewZapiAsyncResult (submissionWithStatus ''bogus'') =
     (\<lparr>jobId = 7, status = ''bogus'', errorCode = 13\<rparr>, None) \<and>
   WaitForAsyncResponse envFailsAtFirst (submissionWithStatus ''bogus'') (30 * Second)
       initialWorld =
     Some (Inr None, initialWorld)"
proof -
  let ?empty = "AsyncResponse \<lparr>ResultStatusPtr = None, ResultJobidPtr = None,
                                ResultErrorCodePtr = None\<rparr>"
  have x1: "NewZapiAsyncResult ?empty = (\<lparr>jobId = 0, status = [], errorCode = 0\<rparr>, None)"
    by (simp add: NewZapiAsyncResult_def extractZapiAsyncResult_def)
  have a1: "status \<lparr>jobId = 0, status = [], errorCode = 0\<rparr> \<noteq> ''in_progress''"
    and b1: "status \<lparr>jobId = 0, status = [], errorCode = 0\<rparr> \<noteq> ''failed''"
    by simp_all
  have x2: "NewZapiAsyncResult (submissionWithStatus ''bogus'') =
              (\<lparr>jobId = 7, status = ''bogus'', errorCode = 13\<rparr>, None)"
    by (simp add: NewZapiAsyncResult_def extractZapiAsyncResult_def submissionWithStatus_def)
  have a2: "status \<lparr>jobId = 7, status = ''bogus'', errorCode = 13\<rparr> \<noteq> ''in_progress''"
    and b2: "status \<lparr>jobId = 7, status = ''bogus'', errorCode = 13\<rparr> \<noteq> ''failed''"
    by simp_all
  from x1 a1 b1 x2
    WaitForAsyncResponse_other_status [OF x1 a1 b1, of envFailsAtFirst "30 * Second" initialWorld]
    WaitForAsyncResponse_other_status [OF x2 a2 b2, of envFailsAtFirst "30 * Second" initialWorld]
  show ?thesis by (intro conjI)
qed

section \<open>Retryable polls and panics\<close>

text \<open>
  What the check does with a query that does not let it observe a terminal state, as
  long as the query returned a response object: a query error, a result status other
  than \<open>passed\<close>, missing attributes and a job state that is neither \<open>success\<close> nor
  a terminal failure state all give a retryable error.
\<close>

lemma pollOutcome_retryable_with_response:
  assumes "JobGetIterStatus e k jobID = (Some r, err)"
    and "err \<noteq> None \<or> ResultStatusAttr (Result r) \<noteq> ''passed'' \<or>
         AttributesListPtr (Result r) = None \<or>
         (\<exists>s. observedJobState e jobID k = Some s \<and> s \<noteq> ''success'' \<and> \<not> terminalFailure s)"
  shows "retryable (pollOutcome e jobID k)"
  using assms
  by (auto simp add: pollOutcome_def checkJobFinished_def observedJobState_def
        terminalFailure_def Let_def
        split: option.splits list.splits if_splits)

text \<open>
  Claim C6 fails on the code at a status query that returns an error and no response
  object: the check then reads \<open>jobResponse.Result\<close> through the nil pointer to format
  its message and panics, where the claim has a retryable error and further polling.
  In the run below the backoff would have granted a delay, but the call ends in the
  panic after its first query.
\<close>

theorem checkForJobCompletion_query_error_without_response:
  "JobGetIterStatus envQueryFails 0 7 = (None, Some (OtherError ''connection refused'')) \<and>
   NextBackOff envQueryFails
     (asyncResponseBackoff (NewExponentialBackOff envQueryFails) (30 * Second)) 0 = Some Second \<and>
   checkJobFinished envQueryFails 7 initialWorld =
     (Inl NilPointerDereference, \<lparr>queries = 1, backoffs = 0\<rparr>) \<and>
   \<not> retryable (fst (checkJobFinished envQueryFails 7 initialWorld)) \<and>
   checkForJobCompletion envQueryFails 7 (30 * Second) initialWorld =
     Some (Inl NilPointerDereference, \<lparr>queries = 1, backoffs = 0\<rparr>)"
proof -
  have q: "JobGetIterStatus envQueryFails 0 7 = (None, Some (OtherError ''connection refused''))"
    by (simp add: envQueryFails_def scriptedEnv_def)
  have b: "NextBackOff envQueryFails
     (asyncResponseBackoff (NewExponentialBackOff envQueryFails) (30 * Second)) 0 = Some Second"
    by (simp add: envQueryFails_def scriptedEnv_def)
  have c: "checkJobFinished envQueryFails 7 initialWorld =
             (Inl NilPointerDereference, \<lparr>queries = 1, backoffs = 0\<rparr>)"
    by (simp add: checkJobFinished_def envQueryFails_def scriptedEnv_def initialWorld_def)
  then have n: "\<not> retryable (fst (checkJobFinished envQueryFails 7 initialWorld))"
    by simp
  from c have poll: "pollOutcome envQueryFails 7 (queries initialWorld + 0) = Inl NilPointerDereference"
    by (simp add: checkJobFinished_poll)
  then have stop: "\<not> retryable (pollOutcome envQueryFails 7 (queries initialWorld + 0))"
    by simp
  have "\<forall>k<0. retried envQueryFails 7 (30 * Second) initialWorld k" by simp
  from checkForJobCompletion_ends_at [OF this stop] poll
  have "checkForJobCompletion envQueryFails 7 (30 * Second) initialWorld =
          Some (Inl NilPointerDereference, \<lparr>queries = 1, backoffs = 0\<rparr>)"
    by (simp add: initialWorld_def)
  with q b c n show ?thesis by (intro conjI)
qed

text \<open>
  Claim C10. The per-poll check panics when the status query returns no response
  object, be it with an error (the check formats \<open>jobResponse.Result\<close> all the same) or
  without one, and when a \<open>passed\<close> response has attributes whose job-info list is
  empty (the check reads element 0 unchecked). In no other case does it panic, so it is
  total exactly when these are excluded. A panic of the first poll is the outcome of
  \<open>checkForJobCompletion\<close>.
\<close>

theorem checkJobFinished_panics:
  "(JobGetIterStatus e (queries w) jobID = (None, err) \<longrightarrow>
      fst (checkJobFinished e jobID w) = Inl NilPointerDereference) \<and>
   (JobGetIterStatus e (queries w) jobID = (Some r, None) \<and>
    ResultStatusAttr (Result r) = ''passed'' \<and>
    AttributesListPtr (Result r) = Some attributesList \<and> JobInfoPtr attributesList = [] \<longrightarrow>
      fst (checkJobFinished e jobID w) = Inl IndexOutOfRange) \<and>
   (fst (checkJobFinished e jobID w) = Inl p \<longrightarrow>
      fst (JobGetIterStatus e (queries w) jobID) = None \<or>
      (\<exists>r' attributesList'.
         JobGetIterStatus e (queries w) jobID = (Some r', None) \<and>
         ResultStatusAttr (Result r') = ''passed'' \<and>
         AttributesListPtr (Result r') = Some attributesList' \<and>
         JobInfoPtr attributesList' = [])) \<and>
   (fst (checkJobFinished e jobID w) = Inl p \<longrightarrow>
      checkForJobCompletion e jobID maxWaitTime w =
        Some (Inl p, w\<lparr>queries := queries w + 1, backoffs := 0\<rparr>))"
proof (intro conjI impI)
  assume "JobGetIterStatus e (queries w) jobID = (None, err)"
  then show "fst (checkJobFinished e jobID w) = Inl NilPointerDereference"
    by (simp add: checkJobFinished_def)
next
  assume "JobGetIterStatus e (queries w) jobID = (Some r, None) \<and>
    ResultStatusAttr (Result r) = ''passed'' \<and>
    AttributesListPtr (Result r) = Some attributesList \<and> JobInfoPtr attributesList = []"
  then show "fst (checkJobFinished e jobID w) = Inl IndexOutOfRange"
    by (simp add: checkJobFinished_def)
next
  assume "fst (checkJobFinished e jobID w) = Inl p"
  then show "fst (JobGetIterStatus e (queries w) jobID) = None \<or>
      (\<exists>r' attributesList'.
         JobGetIterStatus e (queries w) jobID = (Some r', None) \<and>
         ResultStatusAttr (Result r') = ''passed'' \<and>
         AttributesListPtr (Result r') = Some attributesList' \<and>
         JobInfoPtr attributesList' = [])"
    by (auto simp add: checkJobFinished_def Let_def
          split: prod.splits option.splits list.splits if_splits)
next
  assume "fst (checkJobFinished e jobID w) = Inl p"
  then have poll: "pollOutcome e jobID (queries w + 0) = Inl p"
    by (simp add: checkJobFinished_poll)
  then have stop: "\<not> retryable (pollOutcome e jobID (queries w + 0))"
    by simp
  have "\<forall>k<0. retried e jobID maxWaitTime w k" by simp
  from checkForJobCompletion_ends_at [OF this stop] poll
  show "checkForJobCompletion e jobID maxWaitTime w =
          Some (Inl p, w\<lparr>queries := queries w + 1, backoffs := 0\<rparr>)"
    by simp
qed

theorem checkJobFinished_panics_witness:
  "JobGetIterStatus envQueryFails (queries initialWorld) 7 =
     (None, Some (OtherError ''connection refused'')) \<and>
   fst (checkJobFinished envQueryFails 7 initialWorld) = Inl NilPointerDereference \<and>
   checkForJobCompletion envQueryFails 7 (30 * Second) initialWorld =
     Some (Inl NilPointerDereference, \<lparr>queries = 1, backoffs = 0\<rparr>) \<and>
   JobGetIterStatus envNoJobInfo (queries initialWorld) 7 =
     (Some \<lparr>Result = \<lparr>ResultStatusAttr = ''passed'',
                       AttributesListPtr = Some \<lparr>JobInfoPtr = []\<rparr>\<rparr>\<rparr>, None) \<and>
   fst (checkJobFinished envNoJobInfo 7 initialWorld) = Inl IndexOutOfRange \<and>
   checkForJobCompletion envNoJobInfo 7 (30 * Second) initialWorld =
     Some (Inl IndexOutOfRange, \<lparr>queries = 1, backoffs = 0\<rparr>)"
proof -
  let ?r = "\<lparr>Result = \<lparr>ResultStatusAttr = ''passed'',
                        AttributesListPtr = Some \<lparr>JobInfoPtr = []\<rparr>\<rparr>\<rparr>"
  have q1: "JobGetIterStatus envQueryFails (queries initialWorld) 7 =
              (None, Some (OtherError ''connection refused''))"
    by (simp add: envQueryFails_def scriptedEnv_def)
  have q2: "JobGetIterStatus envNoJobInfo (queries initialWorld) 7 = (Some ?r, None)"
    by (simp add: envNoJobInfo_def scriptedEnv_def)
  have shape: "ResultStatusAttr (Result ?r) = ''passed'' \<and>
               AttributesListPtr (Result ?r) = Some \<lparr>JobInfoPtr = []\<rparr> \<and>
               JobInfoPtr \<lparr>JobInfoPtr = []\<rparr> = []"
    by simp
  note nil = checkJobFinished_panics
    [of envQueryFails initialWorld 7 "Some (OtherError ''connection refused'')" _ _
        NilPointerDereference "30 * Second"]
  note empty = checkJobFinished_panics
    [of envNoJobInfo initialWorld 7 _ ?r "\<lparr>JobInfoPtr = []\<rparr>" IndexOutOfRange "30 * Second"]
  from nil [THEN conjunct1, THEN mp, OF q1]
  have p1: "fst (checkJobFinished envQueryFails 7 initialWorld) = Inl NilPointerDereference" .
  from nil [THEN conjunct2, THEN conjunct2, THEN conjunct2, THEN mp, OF p1]
  have c1: "checkForJobCompletion envQueryFails 7 (30 * Second) initialWorld =
              Some (Inl NilPointerDereference, \<lparr>queries = 1, backoffs = 0\<rparr>)"
    by (simp add: initialWorld_def)
  from empty [THEN conjunct2, THEN conjunct1, THEN mp, OF conjI [OF q2 shape]]
  have p2: "fst (checkJobFinished envNoJobInfo 7 initialWorld) = Inl IndexOutOfRange" .
  from empty [THEN conjunct2, THEN conjunct2, THEN conjunct2, THEN mp, OF p2]
  have c2: "checkForJobCompletion envNoJobInfo 7 (30 * Second) initialWorld =
              Some (Inl IndexOutOfRange, \<lparr>queries = 1, backoffs = 0\<rparr>)"
    by (simp add: initialWorld_def)
  from q1 p1 c1 q2 p2 c2 show ?thesis by (intro conjI)
qed

section \<open>The delays of the configured backoff\<close>










end
